theory Spec2Isabelle
  imports Main
begin

section \<open>Data model\<close>

text \<open>
  The service is an HTTP API over one collection of movie documents, in three variants:
  \<^verbatim>\<open>server.js\<close> (no cache), the unnamed source file \<^verbatim>\<open>part_000\<close> (the list is cached under
  the key \<^verbatim>\<open>movies\<close>) and \<^verbatim>\<open>redisServer.js\<close> (the list and every document read by
  identifier are cached, as simplified projections).

  An identifier of the store is a 12-byte value; it is modelled by the number it denotes.
\<close>

type_synonym oid = nat

text \<open>
  A JavaScript error object: its class name, its \<^verbatim>\<open>message\<close> and its optional
  \<^verbatim>\<open>status\<close> property. \<open>toString\<close> is what a template literal \<^verbatim>\<open>${err}\<close> prints,
  \<^verbatim>\<open>Error.prototype.toString\<close>: the name alone when the message is empty, the message
  alone when the name is empty.
\<close>

datatype err = Err (err_name: string) (message: string) (status: "nat option")

definition toString :: "err \<Rightarrow> string" where
  "toString e =
     (if err_name e = [] then message e
      else if message e = [] then err_name e
      else err_name e @ '': '' @ message e)"

text \<open>
  A movie document: \<^verbatim>\<open>_id\<close>, the optional fields \<^verbatim>\<open>name\<close> and \<^verbatim>\<open>title\<close>
  (\<open>None\<close> is JavaScript's \<^verbatim>\<open>undefined\<close>) and every other field of the document.
\<close>

record movie =
  movie_id :: oid
  name :: "string option"
  title :: "string option"
  other_fields :: "(string \<times> string) list"

text \<open>The object built by \<^verbatim>\<open>simplifyMovie\<close>: \<^verbatim>\<open>{ id, name, title }\<close>.\<close>

record simple =
  simple_id :: oid
  simple_name :: "string option"
  simple_title :: "string option"

definition simplifyMovie :: "movie \<Rightarrow> simple" where
  "simplifyMovie m = \<lparr>simple_id = movie_id m, simple_name = name m, simple_title = title m\<rparr>"

text \<open>
  A JSON text, as sent in a response body and as kept in the cache. The model represents
  the text \<^verbatim>\<open>JSON.stringify(v)\<close> by the value \<open>v\<close> it serialises, so that
  \<^verbatim>\<open>JSON.parse\<close> of a cached text gives the value back. Such a text is never the empty
  string, so a cached value is always truthy in \<^verbatim>\<open>if (cachedMovies)\<close>.
\<close>

datatype body =
    Movie movie
  | Movies "movie list"
  | Simplified simple
  | SimplifiedList "simple list"
  | UpdateResult nat nat
  | DeleteResult nat
  | ErrorBody string
  | Text string
  | ErrorPage string

text \<open>
  \<open>UpdateResult matchedCount modifiedCount\<close> and \<open>DeleteResult deletedCount\<close> are the
  driver's result summaries; \<open>ErrorBody msg\<close> is \<^verbatim>\<open>{ error: msg }\<close>; \<open>Text\<close> is a plain
  string sent by \<^verbatim>\<open>res.send\<close>; \<open>ErrorPage\<close> is the rendered \<^verbatim>\<open>error\<close> view.
\<close>

text \<open>
  What a handler does with a request: it sends a response with a status, or it forwards an
  error with \<^verbatim>\<open>next(err)\<close>, or an exception is thrown inside the asynchronous callback of
  a cache command, where no \<^verbatim>\<open>try\<close> encloses it: the callback's promise is rejected, nothing
  handles the rejection, and no response is sent.
\<close>

datatype outcome =
    Response nat body
  | Next err
  | Unhandled err

text \<open>Every call to an external collaborator and every console line, in order.\<close>

datatype event =
    StoreFind
  | StoreFindOne oid
  | StoreUpdateOne oid string
  | StoreDeleteOne oid
  | CacheGet string
  | CacheSet string body
  | CacheDel string
  | ConsoleLog string
  | ConsoleError string

record world =
  db :: "movie list"
  cache :: "string \<rightharpoonup> body"
  trace :: "event list"

definition emit :: "event \<Rightarrow> world \<Rightarrow> world" where
  "emit e w = w\<lparr>trace := trace w @ [e]\<rparr>"

text \<open>
  The store and the cache are external and may fail. For one request, \<open>faults\<close> says which
  of the handler's calls fails, and with what error: the first store command
  (\<open>storeErr\<close>), the second one of the update handler of \<^verbatim>\<open>redisServer.js\<close>
  (\<open>refetchErr\<close>), and the cache commands.
\<close>

record faults =
  storeErr :: "err option"
  refetchErr :: "err option"
  cacheGetErr :: "err option"
  cacheSetErr :: "err option"
  cacheDelItemErr :: "err option"
  cacheDelErr :: "err option"

definition no_faults :: faults where
  "no_faults = \<lparr>storeErr = None, refetchErr = None, cacheGetErr = None,
     cacheSetErr = None, cacheDelItemErr = None, cacheDelErr = None\<rparr>"

section \<open>The document store\<close>

text \<open>
  Modelled from the spec: the document store is an external collaborator, "assumed to
  provide find/update/delete/insert with standard semantics". The collection is the list of
  its documents in natural order; a command that fails throws and changes nothing.
\<close>

definition findOne :: "oid \<Rightarrow> movie list \<Rightarrow> movie option" where
  "findOne i ms = find (\<lambda>m. movie_id m = i) ms"

fun setTitle :: "oid \<Rightarrow> string \<Rightarrow> movie list \<Rightarrow> movie list" where
  "setTitle i t [] = []"
| "setTitle i t (m # ms) =
     (if movie_id m = i then m\<lparr>title := Some t\<rparr> # ms else m # setTitle i t ms)"

fun removeOne :: "oid \<Rightarrow> movie list \<Rightarrow> movie list" where
  "removeOne i [] = []"
| "removeOne i (m # ms) = (if movie_id m = i then ms else m # removeOne i ms)"

text \<open>\<^verbatim>\<open>collection.find({}).limit(10).toArray()\<close>\<close>

definition collection_find :: "err option \<Rightarrow> world \<Rightarrow> world \<times> (err + movie list)" where
  "collection_find flt w =
     (emit StoreFind w, case flt of Some e \<Rightarrow> Inl e | None \<Rightarrow> Inr (take 10 (db w)))"

text \<open>\<^verbatim>\<open>collection.findOne({ _id: i })\<close>; \<open>None\<close> is the driver's \<^verbatim>\<open>null\<close>.\<close>

definition collection_findOne :: "err option \<Rightarrow> oid \<Rightarrow> world \<Rightarrow> world \<times> (err + movie option)" where
  "collection_findOne flt i w =
     (emit (StoreFindOne i) w, case flt of Some e \<Rightarrow> Inl e | None \<Rightarrow> Inr (findOne i (db w)))"

text \<open>\<^verbatim>\<open>collection.updateOne({ _id: i }, { $set: { title: t } })\<close>\<close>

definition collection_updateOne ::
  "err option \<Rightarrow> oid \<Rightarrow> string \<Rightarrow> world \<Rightarrow> world \<times> (err + nat \<times> nat)" where
  "collection_updateOne flt i t w =
     (case flt of
        Some e \<Rightarrow> (emit (StoreUpdateOne i t) w, Inl e)
      | None \<Rightarrow>
          (emit (StoreUpdateOne i t) (w\<lparr>db := setTitle i t (db w)\<rparr>),
           Inr (case findOne i (db w) of
                  None \<Rightarrow> (0, 0)
                | Some m \<Rightarrow> (1, if title m = Some t then 0 else 1))))"

text \<open>\<^verbatim>\<open>collection.deleteOne({ _id: i })\<close>\<close>

definition collection_deleteOne :: "err option \<Rightarrow> oid \<Rightarrow> world \<Rightarrow> world \<times> (err + nat)" where
  "collection_deleteOne flt i w =
     (case flt of
        Some e \<Rightarrow> (emit (StoreDeleteOne i) w, Inl e)
      | None \<Rightarrow>
          (emit (StoreDeleteOne i) (w\<lparr>db := removeOne i (db w)\<rparr>),
           Inr (case findOne i (db w) of None \<Rightarrow> 0 | Some m \<Rightarrow> 1)))"

section \<open>The cache\<close>

text \<open>
  Modelled from the spec: the cache store is an external collaborator, "assumed to provide
  get/set/delete with standard semantics"; entries have no expiration. A command that
  fails passes its error to the callback and changes nothing. Each handler function below
  serves one request from its start to its end, callbacks included, with no step of
  another request in between; the suspension of a read at its store query, during which
  other requests are served, is modelled apart for the read by identifier of
  \<^verbatim>\<open>redisServer.js\<close>.
\<close>

definition redis_get :: "err option \<Rightarrow> string \<Rightarrow> world \<Rightarrow> world \<times> (err + body option)" where
  "redis_get flt k w =
     (emit (CacheGet k) w, case flt of Some e \<Rightarrow> Inl e | None \<Rightarrow> Inr (cache w k))"

definition redis_set :: "err option \<Rightarrow> string \<Rightarrow> body \<Rightarrow> world \<Rightarrow> world \<times> err option" where
  "redis_set flt k v w =
     (case flt of
        Some e \<Rightarrow> (emit (CacheSet k v) w, Some e)
      | None \<Rightarrow> (emit (CacheSet k v) (w\<lparr>cache := (cache w)(k \<mapsto> v)\<rparr>), None))"

definition redis_del :: "err option \<Rightarrow> string \<Rightarrow> world \<Rightarrow> world \<times> err option" where
  "redis_del flt k w =
     (case flt of
        Some e \<Rightarrow> (emit (CacheDel k) w, Some e)
      | None \<Rightarrow> (emit (CacheDel k) (w\<lparr>cache := (cache w)(k := None)\<rparr>), None))"

text \<open>
  The callback of every \<^verbatim>\<open>set\<close> and \<^verbatim>\<open>del\<close> in the source:
  \<^verbatim>\<open>(err) => { if (err) console.error(`<prefix>${err}`) else console.log(<msg>) }\<close>.
\<close>

definition report :: "string \<Rightarrow> string \<Rightarrow> world \<times> err option \<Rightarrow> world" where
  "report prefix msg r =
     (case r of
        (w, Some e) \<Rightarrow> emit (ConsoleError (prefix @ toString e)) w
      | (w, None) \<Rightarrow> emit (ConsoleLog msg) w)"

section \<open>server.js: no cache\<close>

text \<open>
  \<open>ObjectId\<close> is the driver's constructor \<^verbatim>\<open>new ObjectId(req.params.id)\<close>, a parameter of
  every handler that takes an identifier: \<open>Inl e\<close> when it throws \<open>e\<close> because the string
  is not in the store's identifier format.
\<close>

definition server_get_all :: "faults \<Rightarrow> world \<Rightarrow> world \<times> outcome" where
  "server_get_all f w =
     (case collection_find (storeErr f) w of
        (w1, Inl e) \<Rightarrow> (w1, Response 500 (ErrorBody (message e)))
      | (w1, Inr results) \<Rightarrow> (w1, Response 200 (Movies results)))"

definition server_get_id ::
  "(string \<Rightarrow> err + oid) \<Rightarrow> faults \<Rightarrow> world \<Rightarrow> string \<Rightarrow> world \<times> outcome" where
  "server_get_id ObjectId f w s =
     (case ObjectId s of
        Inl e \<Rightarrow> (w, Response 500 (ErrorBody (message e)))
      | Inr i \<Rightarrow>
          (case collection_findOne (storeErr f) i w of
             (w1, Inl e) \<Rightarrow> (w1, Response 500 (ErrorBody (message e)))
           | (w1, Inr None) \<Rightarrow> (w1, Response 404 (Text ''Not found''))
           | (w1, Inr (Some result)) \<Rightarrow> (w1, Response 200 (Movie result))))"

definition server_patch_id ::
  "(string \<Rightarrow> err + oid) \<Rightarrow> faults \<Rightarrow> world \<Rightarrow> string \<Rightarrow> string \<Rightarrow> world \<times> outcome" where
  "server_patch_id ObjectId f w s t =
     (case ObjectId s of
        Inl e \<Rightarrow> (w, Response 500 (ErrorBody (message e)))
      | Inr i \<Rightarrow>
          (case collection_updateOne (storeErr f) i t w of
             (w1, Inl e) \<Rightarrow> (w1, Response 500 (ErrorBody (message e)))
           | (w1, Inr (matched, modified)) \<Rightarrow>
               (w1, Response 200 (UpdateResult matched modified))))"

definition server_delete_id ::
  "(string \<Rightarrow> err + oid) \<Rightarrow> faults \<Rightarrow> world \<Rightarrow> string \<Rightarrow> world \<times> outcome" where
  "server_delete_id ObjectId f w s =
     (case ObjectId s of
        Inl e \<Rightarrow> (w, Response 500 (ErrorBody (message e)))
      | Inr i \<Rightarrow>
          (case collection_deleteOne (storeErr f) i w of
             (w1, Inl e) \<Rightarrow> (w1, Response 500 (ErrorBody (message e)))
           | (w1, Inr deleted) \<Rightarrow> (w1, Response 200 (DeleteResult deleted))))"

section \<open>part_000: the list is cached under the key movies\<close>

definition part000_get_all :: "faults \<Rightarrow> world \<Rightarrow> world \<times> outcome" where
  "part000_get_all f w =
     (case redis_get (cacheGetErr f) ''movies'' w of
        (w1, Inl e) \<Rightarrow>
          (emit (ConsoleError (''Error fetching movies from Redis: '' @ toString e)) w1, Next e)
      | (w1, Inr (Some cachedMovies)) \<Rightarrow>
          (emit (ConsoleLog ''Fetching movies from Redis cache'') w1, Response 200 cachedMovies)
      | (w1, Inr None) \<Rightarrow>
          (case collection_find (storeErr f)
                  (emit (ConsoleLog ''No movies found in Redis cache, fetching from MongoDB'') w1) of
             (w2, Inl e) \<Rightarrow> (w2, Unhandled e)
           | (w2, Inr results) \<Rightarrow>
               (report ''Error caching movies in Redis: '' ''Cached movies in Redis''
                  (redis_set (cacheSetErr f) ''movies'' (Movies results) w2),
                Response 200 (Movies results))))"

definition part000_get_id ::
  "(string \<Rightarrow> err + oid) \<Rightarrow> faults \<Rightarrow> world \<Rightarrow> string \<Rightarrow> world \<times> outcome" where
  "part000_get_id ObjectId f w s =
     (case ObjectId s of
        Inl e \<Rightarrow> (w, Response 500 (ErrorBody (message e)))
      | Inr i \<Rightarrow>
          (case collection_findOne (storeErr f) i w of
             (w1, Inl e) \<Rightarrow> (w1, Response 500 (ErrorBody (message e)))
           | (w1, Inr None) \<Rightarrow> (w1, Response 404 (Text ''Not found''))
           | (w1, Inr (Some result)) \<Rightarrow> (w1, Response 200 (Movie result))))"

definition part000_patch_id ::
  "(string \<Rightarrow> err + oid) \<Rightarrow> faults \<Rightarrow> world \<Rightarrow> string \<Rightarrow> string \<Rightarrow> world \<times> outcome" where
  "part000_patch_id ObjectId f w s t =
     (case ObjectId s of
        Inl e \<Rightarrow> (w, Response 500 (ErrorBody (message e)))
      | Inr i \<Rightarrow>
          (case collection_updateOne (storeErr f) i t w of
             (w1, Inl e) \<Rightarrow> (w1, Response 500 (ErrorBody (message e)))
           | (w1, Inr (matched, modified)) \<Rightarrow>
               (report ''Error invalidating Redis cache: '' ''Invalidated Redis cache after update''
                  (redis_del (cacheDelErr f) ''movies'' w1),
                Response 200 (UpdateResult matched modified))))"

definition part000_delete_id ::
  "(string \<Rightarrow> err + oid) \<Rightarrow> faults \<Rightarrow> world \<Rightarrow> string \<Rightarrow> world \<times> outcome" where
  "part000_delete_id ObjectId f w s =
     (case ObjectId s of
        Inl e \<Rightarrow> (w, Response 500 (ErrorBody (message e)))
      | Inr i \<Rightarrow>
          (case collection_deleteOne (storeErr f) i w of
             (w1, Inl e) \<Rightarrow> (w1, Response 500 (ErrorBody (message e)))
           | (w1, Inr deleted) \<Rightarrow>
               (report ''Error invalidating Redis cache: '' ''Invalidated Redis cache after delete''
                  (redis_del (cacheDelErr f) ''movies'' w1),
                Response 200 (DeleteResult deleted))))"

section \<open>redisServer.js: the list and single documents are cached, simplified\<close>

definition redisServer_get_all :: "faults \<Rightarrow> world \<Rightarrow> world \<times> outcome" where
  "redisServer_get_all f w =
     (case redis_get (cacheGetErr f) ''movies'' w of
        (w1, Inl e) \<Rightarrow>
          (emit (ConsoleError (''Error fetching movies from Redis: '' @ toString e)) w1, Next e)
      | (w1, Inr (Some cachedMovies)) \<Rightarrow>
          (emit (ConsoleLog ''Fetching movies from Redis cache'') w1, Response 200 cachedMovies)
      | (w1, Inr None) \<Rightarrow>
          (case collection_find (storeErr f)
                  (emit (ConsoleLog ''No movies found in Redis cache, fetching from MongoDB'') w1) of
             (w2, Inl e) \<Rightarrow> (w2, Unhandled e)
           | (w2, Inr results) \<Rightarrow>
               (let simplifiedResults = map simplifyMovie results in
                (report ''Error caching movies in Redis: '' ''Cached movies in Redis''
                   (redis_set (cacheSetErr f) ''movies'' (SimplifiedList simplifiedResults) w2),
                 Response 200 (SimplifiedList simplifiedResults)))))"

text \<open>
  The identifier is parsed only on a cache miss, inside the callback of the cache read: an
  exception of \<open>ObjectId\<close> or of the store is thrown where the handler's \<^verbatim>\<open>try\<close> does not
  reach.
\<close>

definition redisServer_get_id ::
  "(string \<Rightarrow> err + oid) \<Rightarrow> faults \<Rightarrow> world \<Rightarrow> string \<Rightarrow> world \<times> outcome" where
  "redisServer_get_id ObjectId f w movieId =
     (case redis_get (cacheGetErr f) (''movie:'' @ movieId) w of
        (w1, Inl e) \<Rightarrow>
          (emit (ConsoleError (''Error fetching movie from Redis: '' @ toString e)) w1, Next e)
      | (w1, Inr (Some cachedMovie)) \<Rightarrow>
          (emit (ConsoleLog ''Fetching movie from Redis cache'') w1, Response 200 cachedMovie)
      | (w1, Inr None) \<Rightarrow>
          (let w2 = emit (ConsoleLog ''No movie found in Redis cache, fetching from MongoDB'') w1 in
           case ObjectId movieId of
             Inl e \<Rightarrow> (w2, Unhandled e)
           | Inr i \<Rightarrow>
               (case collection_findOne (storeErr f) i w2 of
                  (w3, Inl e) \<Rightarrow> (w3, Unhandled e)
                | (w3, Inr None) \<Rightarrow> (w3, Response 404 (Text ''Not found''))
                | (w3, Inr (Some result)) \<Rightarrow>
                    (let simplifiedResult = simplifyMovie result in
                     (report ''Error caching movie in Redis: '' ''Cached movie in Redis''
                        (redis_set (cacheSetErr f) (''movie:'' @ movieId)
                           (Simplified simplifiedResult) w3),
                      Response 200 (Simplified simplifiedResult))))))"

text \<open>
  Requests overlap: the read by identifier is suspended at
  \<^verbatim>\<open>await collection.findOne(query)\<close>, and other requests are served before it resumes with
  the document it has read. \<open>redisServer_get_id_begin\<close> is the handler up to that point:
  it ends with an outcome, or suspended with the document. \<open>redisServer_get_id_resume\<close>
  is the rest: the cache write and the response.
\<close>

definition redisServer_get_id_begin ::
  "(string \<Rightarrow> err + oid) \<Rightarrow> faults \<Rightarrow> world \<Rightarrow> string \<Rightarrow> world \<times> (outcome + movie)" where
  "redisServer_get_id_begin ObjectId f w movieId =
     (case redis_get (cacheGetErr f) (''movie:'' @ movieId) w of
        (w1, Inl e) \<Rightarrow>
          (emit (ConsoleError (''Error fetching movie from Redis: '' @ toString e)) w1,
           Inl (Next e))
      | (w1, Inr (Some cachedMovie)) \<Rightarrow>
          (emit (ConsoleLog ''Fetching movie from Redis cache'') w1,
           Inl (Response 200 cachedMovie))
      | (w1, Inr None) \<Rightarrow>
          (let w2 = emit (ConsoleLog ''No movie found in Redis cache, fetching from MongoDB'') w1 in
           case ObjectId movieId of
             Inl e \<Rightarrow> (w2, Inl (Unhandled e))
           | Inr i \<Rightarrow>
               (case collection_findOne (storeErr f) i w2 of
                  (w3, Inl e) \<Rightarrow> (w3, Inl (Unhandled e))
                | (w3, Inr None) \<Rightarrow> (w3, Inl (Response 404 (Text ''Not found'')))
                | (w3, Inr (Some result)) \<Rightarrow> (w3, Inr result))))"

definition redisServer_get_id_resume :: "faults \<Rightarrow> string \<Rightarrow> movie \<Rightarrow> world \<Rightarrow> world \<times> outcome" where
  "redisServer_get_id_resume f movieId result w =
     (let simplifiedResult = simplifyMovie result in
      (report ''Error caching movie in Redis: '' ''Cached movie in Redis''
         (redis_set (cacheSetErr f) (''movie:'' @ movieId) (Simplified simplifiedResult) w),
       Response 200 (Simplified simplifiedResult)))"

text \<open>
  After a matching update the document is read again and written through to its cache key;
  \<^verbatim>\<open>simplifyMovie(null)\<close> throws a \<^verbatim>\<open>TypeError\<close> inside the \<^verbatim>\<open>try\<close>. The two cache
  commands are issued one after the other; their callbacks log afterwards, in the order of
  the commands.
\<close>

definition redisServer_patch_id ::
  "(string \<Rightarrow> err + oid) \<Rightarrow> faults \<Rightarrow> world \<Rightarrow> string \<Rightarrow> string \<Rightarrow> world \<times> outcome" where
  "redisServer_patch_id ObjectId f w movieId t =
     (case ObjectId movieId of
        Inl e \<Rightarrow> (w, Response 500 (ErrorBody (message e)))
      | Inr i \<Rightarrow>
          (case collection_updateOne (storeErr f) i t w of
             (w1, Inl e) \<Rightarrow> (w1, Response 500 (ErrorBody (message e)))
           | (w1, Inr (matched, modified)) \<Rightarrow>
               (if matched > 0 then
                  (case collection_findOne (refetchErr f) i w1 of
                     (w2, Inl e) \<Rightarrow> (w2, Response 500 (ErrorBody (message e)))
                   | (w2, Inr None) \<Rightarrow>
                       (w2, Response 500
                          (ErrorBody ''Cannot read properties of null (reading '_id')''))
                   | (w2, Inr (Some updatedMovie)) \<Rightarrow>
                       (let simplifiedMovie = simplifyMovie updatedMovie in
                        case redis_set (cacheSetErr f) (''movie:'' @ movieId)
                               (Simplified simplifiedMovie) w2 of
                          (w3, setErr) \<Rightarrow>
                            (case redis_del (cacheDelErr f) ''movies'' w3 of
                               (w4, delErr) \<Rightarrow>
                                 (report ''Error invalidating Redis cache: ''
                                    ''Invalidated Redis cache after update''
                                    (report ''Error updating movie in Redis: ''
                                       ''Updated movie in Redis'' (w4, setErr),
                                     delErr),
                                  Response 200 (UpdateResult matched modified)))))
                else (w1, Response 200 (UpdateResult matched modified)))))"

definition redisServer_delete_id ::
  "(string \<Rightarrow> err + oid) \<Rightarrow> faults \<Rightarrow> world \<Rightarrow> string \<Rightarrow> world \<times> outcome" where
  "redisServer_delete_id ObjectId f w movieId =
     (case ObjectId movieId of
        Inl e \<Rightarrow> (w, Response 500 (ErrorBody (message e)))
      | Inr i \<Rightarrow>
          (case collection_deleteOne (storeErr f) i w of
             (w1, Inl e) \<Rightarrow> (w1, Response 500 (ErrorBody (message e)))
           | (w1, Inr deleted) \<Rightarrow>
               (case redis_del (cacheDelItemErr f) (''movie:'' @ movieId) w1 of
                  (w2, itemErr) \<Rightarrow>
                    (case redis_del (cacheDelErr f) ''movies'' w2 of
                       (w3, delErr) \<Rightarrow>
                         (report ''Error invalidating Redis cache: ''
                            ''Invalidated Redis cache after delete''
                            (report ''Error invalidating movie in Redis: ''
                               ''Invalidated movie in Redis after delete'' (w3, itemErr),
                             delErr),
                          Response 200 (DeleteResult deleted))))))"

section \<open>The error handler and the three routers\<close>

text \<open>
  The last middleware: \<^verbatim>\<open>res.status(err.status || 500); res.render('error')\<close>. A status of
  0 is falsy.
\<close>

definition error_handler :: "err \<Rightarrow> outcome" where
  "error_handler e =
     Response (case status e of None \<Rightarrow> 500 | Some n \<Rightarrow> if n = 0 then 500 else n)
       (ErrorPage (message e))"

datatype variant = Server | Part000 | RedisServer

datatype request = GetAll | GetById string | Patch string string | Delete string

fun handle ::
  "(string \<Rightarrow> err + oid) \<Rightarrow> variant \<Rightarrow> faults \<Rightarrow> world \<Rightarrow> request \<Rightarrow> world \<times> outcome" where
  "handle ObjectId Server f w GetAll = server_get_all f w"
| "handle ObjectId Server f w (GetById s) = server_get_id ObjectId f w s"
| "handle ObjectId Server f w (Patch s t) = server_patch_id ObjectId f w s t"
| "handle ObjectId Server f w (Delete s) = server_delete_id ObjectId f w s"
| "handle ObjectId Part000 f w GetAll = part000_get_all f w"
| "handle ObjectId Part000 f w (GetById s) = part000_get_id ObjectId f w s"
| "handle ObjectId Part000 f w (Patch s t) = part000_patch_id ObjectId f w s t"
| "handle ObjectId Part000 f w (Delete s) = part000_delete_id ObjectId f w s"
| "handle ObjectId RedisServer f w GetAll = redisServer_get_all f w"
| "handle ObjectId RedisServer f w (GetById s) = redisServer_get_id ObjectId f w s"
| "handle ObjectId RedisServer f w (Patch s t) = redisServer_patch_id ObjectId f w s t"
| "handle ObjectId RedisServer f w (Delete s) = redisServer_delete_id ObjectId f w s"

text \<open>
  A history of the service: requests served one after the other, each by any of the
  variants (they use the same cache address and list key) and under any faults.
\<close>

fun run :: "(string \<Rightarrow> err + oid) \<Rightarrow> world \<Rightarrow> (variant \<times> faults \<times> request) list \<Rightarrow> world" where
  "run ObjectId w [] = w"
| "run ObjectId w ((v, f, r) # rs) = run ObjectId (fst (handle ObjectId v f w r)) rs"

section \<open>Observations\<close>

fun is_store_query :: "event \<Rightarrow> bool" where
  "is_store_query StoreFind = True"
| "is_store_query (StoreFindOne i) = True"
| "is_store_query (StoreUpdateOne i t) = True"
| "is_store_query (StoreDeleteOne i) = True"
| "is_store_query e = False"

fun is_cache_set :: "event \<Rightarrow> bool" where
  "is_cache_set (CacheSet k v) = True"
| "is_cache_set e = False"

text \<open>The events of the step that leads from \<open>w\<close> to \<open>w'\<close>.\<close>

definition since :: "world \<Rightarrow> world \<Rightarrow> event list" where
  "since w w' = drop (length (trace w)) (trace w')"

text \<open>The number of entries of a body that is a list.\<close>

fun entries :: "body \<Rightarrow> nat option" where
  "entries (Movies ms) = Some (length ms)"
| "entries (SimplifiedList xs) = Some (length xs)"
| "entries b = None"

fun is_client_error :: "outcome \<Rightarrow> bool" where
  "is_client_error (Response n b) = (400 \<le> n \<and> n < 500)"
| "is_client_error out = False"

section \<open>A concrete identifier format and a concrete collection\<close>

text \<open>
  An identifier format, as an instance of the parameter \<open>ObjectId\<close>, used where a theorem
  is applied to concrete requests: a string is an identifier when it is 24 hexadecimal
  digits, in either case, and denotes the number the digits spell; any other string is
  refused with an exception.
\<close>

definition hexDigit :: "char \<Rightarrow> nat option" where
  "hexDigit c =
     map_of (zip ''0123456789abcdefABCDEF''
       [0, 1, 2, 3, 4, 5, 6, 7, 8, 9, 10, 11, 12, 13, 14, 15, 10, 11, 12, 13, 14, 15]) c"

definition hexObjectId :: "string \<Rightarrow> err + oid" where
  "hexObjectId s =
     (if length s = 24 \<and> list_all (\<lambda>c. hexDigit c \<noteq> None) s
      then Inr (foldl (\<lambda>a c. 16 * a + the (hexDigit c)) 0 s)
      else Inl (Err ''BSONError''
                 ''input must be a 24 character hex string, 12 byte Uint8Array, or an integer''
                 None))"

definition blacksmith :: movie where
  "blacksmith = \<lparr>movie_id = 27017, name = None, title = Some ''Blacksmith Scene'',
     other_fields = [(''year'', ''1893'')]\<rparr>"

definition robbery :: movie where
  "robbery = \<lparr>movie_id = 27018, name = None, title = Some ''The Great Train Robbery'',
     other_fields = [(''year'', ''1903'')]\<rparr>"

definition blacksmith_id :: string where
  "blacksmith_id = ''000000000000000000006989''"

definition unknown_id :: string where
  "unknown_id = ''00000000000000000000ffff''"

text \<open>The identifier of the second movie, in lower-case and in upper-case digits.\<close>

definition robbery_id :: string where
  "robbery_id = ''00000000000000000000698a''"

definition robbery_ID :: string where
  "robbery_ID = ''00000000000000000000698A''"

definition sample_world :: world where
  "sample_world = \<lparr>db = [blacksmith, robbery], cache = Map.empty, trace = []\<rparr>"

definition redis_down :: err where
  "redis_down = Err ''Error'' ''Redis connection to localhost:6379 failed'' None"

text \<open>
  The sample collection after \<^verbatim>\<open>redisServer.js\<close> has served a first read of the first movie
  by its identifier: the projection of the movie is cached.
\<close>

definition cached_world :: world where
  "cached_world = fst (redisServer_get_id hexObjectId no_faults sample_world blacksmith_id)"

text \<open>
  The sample collection while a first read of the first movie by its identifier in
  \<^verbatim>\<open>redisServer.js\<close> is suspended: the movie has been read from the store, nothing is
  cached yet.
\<close>

definition reading_world :: world where
  "reading_world =
     fst (redisServer_get_id_begin hexObjectId no_faults sample_world blacksmith_id)"

text \<open>A collection whose first movie has a name that differs from its title.\<close>

definition kid :: movie where
  "kid = \<lparr>movie_id = 27019, name = Some ''kid'', title = Some ''The Kid'',
     other_fields = [(''year'', ''1921'')]\<rparr>"

definition named_world :: world where
  "named_world = \<lparr>db = [kid, blacksmith], cache = Map.empty, trace = []\<rparr>"

text \<open>A collection of twelve movies, and nothing cached.\<close>

definition twelve_movies :: "movie list" where
  "twelve_movies =
     map (\<lambda>n. \<lparr>movie_id = n, name = None, title = Some ''Untitled'', other_fields = []\<rparr>)
       [1, 2, 3, 4, 5, 6, 7, 8, 9, 10, 11, 12]"

definition crowded_world :: world where
  "crowded_world = \<lparr>db = twelve_movies, cache = Map.empty, trace = []\<rparr>"

text \<open>A body that is a list of at most 10 entries.\<close>

definition at_most_10 :: "body \<Rightarrow> bool" where
  "at_most_10 b = (case entries b of None \<Rightarrow> False | Some n \<Rightarrow> n \<le> 10)"

text \<open>The list key holds nothing, or a list of at most 10 entries.\<close>

definition list_key_ok :: "world \<Rightarrow> bool" where
  "list_key_ok w = (case cache w ''movies'' of None \<Rightarrow> True | Some b \<Rightarrow> at_most_10 b)"

section \<open>Facts about the store, the cache keys and the samples\<close>

lemmas collaborator_defs = collection_find_def collection_findOne_def collection_updateOne_def
  collection_deleteOne_def redis_get_def redis_set_def redis_del_def report_def emit_def Let_def

text \<open>
  A cache command as a pair, and what logging leaves as it is: enough to follow a handler
  without unfolding every command.
\<close>

lemma redis_set_pair:
  "redis_set flt k v w =
     (emit (CacheSet k v) (if flt = None then w\<lparr>cache := (cache w)(k \<mapsto> v)\<rparr> else w), flt)"
  by (simp add: redis_set_def split: option.split)

lemma redis_del_pair:
  "redis_del flt k w =
     (emit (CacheDel k) (if flt = None then w\<lparr>cache := (cache w)(k := None)\<rparr> else w), flt)"
  by (simp add: redis_del_def split: option.split)

lemma emit_fields [simp]:
  "db (emit e w) = db w" "cache (emit e w) = cache w" "trace (emit e w) = trace w @ [e]"
  by (simp_all add: emit_def)

lemma report_fields [simp]:
  "db (report p m (w, r)) = db w" "cache (report p m (w, r)) = cache w"
  by (simp_all add: report_def emit_def split: option.split)

lemmas effect_simps = collection_find_def collection_findOne_def collection_updateOne_def
  collection_deleteOne_def redis_get_def redis_set_pair redis_del_pair Let_def


lemma simplifyMovie_fields:
  "simplifyMovie = (\<lambda>m. \<lparr>simple_id = movie_id m, simple_name = name m, simple_title = title m\<rparr>)"
  by (rule ext) (simp add: simplifyMovie_def)

text \<open>
  Served without interruption, the read by identifier of \<^verbatim>\<open>redisServer.js\<close> is its first
  part followed at once by its second part.
\<close>

lemma redisServer_get_id_split:
  "redisServer_get_id ObjectId f w s =
     (case redisServer_get_id_begin ObjectId f w s of
        (w1, Inl out) \<Rightarrow> (w1, out)
      | (w1, Inr result) \<Rightarrow> redisServer_get_id_resume f s result w1)"
  by (simp add: redisServer_get_id_def redisServer_get_id_begin_def
      redisServer_get_id_resume_def redis_get_def collection_findOne_def Let_def
      split: option.split sum.split)

lemma item_key_neq_list_key [simp]: "''movie:'' @ s \<noteq> ''movies''"
  by simp

lemma list_key_neq_item_key [simp]: "''movies'' \<noteq> ''movie:'' @ s"
  using item_key_neq_list_key [of s] by (rule not_sym)

lemma findOne_setTitle:
  "findOne i (setTitle i t ms) = map_option (\<lambda>m. m\<lparr>title := Some t\<rparr>) (findOne i ms)"
  by (induction ms) (simp_all add: findOne_def)


lemma since_append [simp]: "since w (w\<lparr>trace := trace w @ es\<rparr>) = es"
  by (simp add: since_def)

lemma blacksmith_id_parsed: "hexObjectId blacksmith_id = Inr 27017"
  by (simp add: hexObjectId_def blacksmith_id_def hexDigit_def)

lemma unknown_id_parsed: "hexObjectId unknown_id = Inr 65535"
  by (simp add: hexObjectId_def unknown_id_def hexDigit_def)

lemma not_an_id_refused:
  "hexObjectId ''not-an-id'' = Inl (Err ''BSONError''
     ''input must be a 24 character hex string, 12 byte Uint8Array, or an integer'' None)"
  by (simp add: hexObjectId_def)

lemma findOne_blacksmith: "findOne 27017 (db sample_world) = Some blacksmith"
  by (simp add: findOne_def sample_world_def blacksmith_def)

lemma findOne_unknown: "findOne 65535 (db sample_world) = None"
  by (simp add: findOne_def sample_world_def blacksmith_def robbery_def)


lemma cached_world_eq:
  "cached_world = \<lparr>db = [blacksmith, robbery],
     cache = [''movie:'' @ blacksmith_id \<mapsto> Simplified (simplifyMovie blacksmith)],
     trace = [CacheGet (''movie:'' @ blacksmith_id),
       ConsoleLog ''No movie found in Redis cache, fetching from MongoDB'',
       StoreFindOne 27017,
       CacheSet (''movie:'' @ blacksmith_id) (Simplified (simplifyMovie blacksmith)),
       ConsoleLog ''Cached movie in Redis'']\<rparr>"
  using findOne_blacksmith
  by (simp add: cached_world_def redisServer_get_id_def blacksmith_id_parsed collaborator_defs
      no_faults_def sample_world_def)



section \<open>Cache entries after an update or a delete\<close>

text \<open>
  Counterexample to claim C1 as stated. The claim wants every cache entry of an updated
  movie deleted. In \<^verbatim>\<open>redisServer.js\<close>, after a successful update of a movie whose
  projection is cached, the entry under the movie's own key is still there: the handler
  has overwritten it with the projection of the updated document.
\<close>

theorem update_keeps_item_key:
  "cache (fst (redisServer_patch_id hexObjectId no_faults cached_world blacksmith_id ''Smithy''))
     (''movie:'' @ blacksmith_id) =
   Some (Simplified \<lparr>simple_id = 27017, simple_name = None, simple_title = Some ''Smithy''\<rparr>)"
  by (simp add: cached_world_eq redisServer_patch_id_def blacksmith_id_parsed collaborator_defs
      no_faults_def findOne_def blacksmith_def simplifyMovie_def)


text \<open>
  Claim C1, amended. After an update or a delete of a movie that is in the store, served
  without faults: \<^verbatim>\<open>server.js\<close> leaves the cache as it was (it has none);
  \<^verbatim>\<open>part_000\<close> deletes the list key; \<^verbatim>\<open>redisServer.js\<close> deletes the list key
  and, under the key of the identifier string of the request, writes the projection of
  the updated document on an update and deletes the entry on a delete.
\<close>

theorem mutation_cache_effect:
  assumes "ObjectId s = Inr i" and "findOne i (db w) = Some m"
  shows
    "cache (fst (server_patch_id ObjectId no_faults w s t)) = cache w \<and>
     cache (fst (server_delete_id ObjectId no_faults w s)) = cache w \<and>
     cache (fst (part000_patch_id ObjectId no_faults w s t)) = (cache w)(''movies'' := None) \<and>
     cache (fst (part000_delete_id ObjectId no_faults w s)) = (cache w)(''movies'' := None) \<and>
     cache (fst (redisServer_patch_id ObjectId no_faults w s t)) =
       (cache w)(''movie:'' @ s \<mapsto> Simplified (simplifyMovie (m\<lparr>title := Some t\<rparr>)),
                 ''movies'' := None) \<and>
     cache (fst (redisServer_delete_id ObjectId no_faults w s)) =
       (cache w)(''movie:'' @ s := None, ''movies'' := None)"
proof -
  have 1: "cache (fst (server_patch_id ObjectId no_faults w s t)) = cache w"
    using assms by (simp add: server_patch_id_def collaborator_defs no_faults_def)
  have 2: "cache (fst (server_delete_id ObjectId no_faults w s)) = cache w"
    using assms by (simp add: server_delete_id_def collaborator_defs no_faults_def)
  have 3: "cache (fst (part000_patch_id ObjectId no_faults w s t)) = (cache w)(''movies'' := None)"
    using assms by (simp add: part000_patch_id_def collaborator_defs no_faults_def)
  have 4: "cache (fst (part000_delete_id ObjectId no_faults w s)) = (cache w)(''movies'' := None)"
    using assms by (simp add: part000_delete_id_def collaborator_defs no_faults_def)
  have 5: "cache (fst (redisServer_patch_id ObjectId no_faults w s t)) =
       (cache w)(''movie:'' @ s \<mapsto> Simplified (simplifyMovie (m\<lparr>title := Some t\<rparr>)),
                 ''movies'' := None)"
    using assms
    by (simp add: redisServer_patch_id_def effect_simps no_faults_def findOne_setTitle)
  have 6: "cache (fst (redisServer_delete_id ObjectId no_faults w s)) =
       (cache w)(''movie:'' @ s := None, ''movies'' := None)"
    using assms by (simp add: redisServer_delete_id_def effect_simps no_faults_def)
  from 1 2 3 4 5 6 show ?thesis by blast
qed



text \<open>The amended claim C1 at the first movie of the sample collection.\<close>

theorem mutation_cache_effect_witness:
  "hexObjectId blacksmith_id = Inr 27017 \<and>
   findOne 27017 (db sample_world) = Some blacksmith \<and>
   cache (fst (part000_patch_id hexObjectId no_faults sample_world blacksmith_id ''Smithy'')) =
     (cache sample_world)(''movies'' := None) \<and>
   cache (fst (redisServer_patch_id hexObjectId no_faults sample_world blacksmith_id ''Smithy'')) =
     (cache sample_world)
       (''movie:'' @ blacksmith_id \<mapsto>
          Simplified (simplifyMovie (blacksmith\<lparr>title := Some ''Smithy''\<rparr>)),
        ''movies'' := None) \<and>
   cache (fst (redisServer_delete_id hexObjectId no_faults sample_world blacksmith_id)) =
     (cache sample_world)(''movie:'' @ blacksmith_id := None, ''movies'' := None)"
proof -
  note h = mutation_cache_effect [where ObjectId = hexObjectId and s = blacksmith_id
      and t = "''Smithy''", OF blacksmith_id_parsed findOne_blacksmith]
  from h blacksmith_id_parsed findOne_blacksmith show ?thesis by blast
qed


section \<open>Reading a movie after an update\<close>






text \<open>
  Why the amended claim C2 asks that no other request overlaps. In \<^verbatim>\<open>redisServer.js\<close> a
  first read misses the cache, reads the movie from the store and is suspended; an update
  is served in full, sets the new title in the store and writes it through; the first
  read resumes and caches the projection it had read. No command has failed, yet the next
  read with the same identifier string answers with the old title.
\<close>

lemma stale_title_after_overlapping_read:
  "snd (redisServer_get_id_begin hexObjectId no_faults sample_world blacksmith_id) =
     Inr blacksmith \<and>
   snd (redisServer_patch_id hexObjectId no_faults reading_world blacksmith_id ''Smithy'') =
     Response 200 (UpdateResult 1 1) \<and>
   snd (redisServer_get_id hexObjectId no_faults
          (fst (redisServer_get_id_resume no_faults blacksmith_id blacksmith
                  (fst (redisServer_patch_id hexObjectId no_faults reading_world
                          blacksmith_id ''Smithy''))))
          blacksmith_id) =
     Response 200 (Simplified \<lparr>simple_id = 27017, simple_name = None,
                                 simple_title = Some ''Blacksmith Scene''\<rparr>)"
proof -
  have suspended: "redisServer_get_id_begin hexObjectId no_faults sample_world blacksmith_id =
      (sample_world\<lparr>trace := [CacheGet (''movie:'' @ blacksmith_id),
          ConsoleLog ''No movie found in Redis cache, fetching from MongoDB'',
          StoreFindOne 27017]\<rparr>, Inr blacksmith)"
    using findOne_blacksmith
    by (simp add: redisServer_get_id_begin_def blacksmith_id_parsed collaborator_defs
        no_faults_def sample_world_def)
  have w: "reading_world = sample_world\<lparr>trace := [CacheGet (''movie:'' @ blacksmith_id),
          ConsoleLog ''No movie found in Redis cache, fetching from MongoDB'',
          StoreFindOne 27017]\<rparr>"
    by (simp add: reading_world_def suspended)
  show ?thesis
    unfolding suspended w
    by (simp add: redisServer_patch_id_def redisServer_get_id_resume_def
        redisServer_get_id_def blacksmith_id_parsed effect_simps no_faults_def findOne_def
        sample_world_def blacksmith_def simplifyMovie_def)
qed


text \<open>
  The cache key is built from the identifier string of the request, the store is queried
  with the identifier it denotes. Under an identifier format in which two strings denote
  one identifier, a read under one spelling is not refreshed by an update under the other:
  this is why the amended claim C2 speaks of the same identifier string.
\<close>

lemma robbery_ids_parsed:
  "hexObjectId robbery_id = Inr 27018" "hexObjectId robbery_ID = Inr 27018"
  by (simp_all add: hexObjectId_def robbery_id_def robbery_ID_def hexDigit_def)

lemma robbery_ids_differ: "robbery_id \<noteq> robbery_ID" "robbery_ID \<noteq> robbery_id"
  by (simp_all add: robbery_id_def robbery_ID_def)

lemma stale_title_under_other_spelling:
  "snd (redisServer_get_id hexObjectId no_faults
          (fst (redisServer_patch_id hexObjectId no_faults
                  (fst (redisServer_get_id hexObjectId no_faults sample_world robbery_ID))
                  robbery_id ''Heist''))
          robbery_ID) =
     Response 200 (Simplified \<lparr>simple_id = 27018, simple_name = None,
                                 simple_title = Some ''The Great Train Robbery''\<rparr>)"
  by (simp add: redisServer_get_id_def redisServer_patch_id_def robbery_ids_parsed
      robbery_ids_differ collaborator_defs no_faults_def findOne_def sample_world_def
      blacksmith_def robbery_def simplifyMovie_def)

section \<open>Reading a movie after a delete\<close>








text \<open>
  Why the amended claim C3 asks that no other request overlaps. In \<^verbatim>\<open>redisServer.js\<close> a
  first read misses the cache, reads the movie from the store and is suspended; a delete
  is served in full, removes the movie from the store and deletes both cache keys; the
  first read resumes and caches the projection it had read. No command has failed, yet
  the next read with the same identifier string answers 200 with the deleted movie.
\<close>

lemma deleted_movie_cached_by_overlapping_read:
  "snd (redisServer_get_id_begin hexObjectId no_faults sample_world blacksmith_id) =
     Inr blacksmith \<and>
   snd (redisServer_delete_id hexObjectId no_faults reading_world blacksmith_id) =
     Response 200 (DeleteResult 1) \<and>
   findOne 27017
     (db (fst (redisServer_delete_id hexObjectId no_faults reading_world blacksmith_id))) =
     None \<and>
   snd (redisServer_get_id hexObjectId no_faults
          (fst (redisServer_get_id_resume no_faults blacksmith_id blacksmith
                  (fst (redisServer_delete_id hexObjectId no_faults reading_world
                          blacksmith_id))))
          blacksmith_id) =
     Response 200 (Simplified \<lparr>simple_id = 27017, simple_name = None,
                                 simple_title = Some ''Blacksmith Scene''\<rparr>)"
proof -
  have suspended: "redisServer_get_id_begin hexObjectId no_faults sample_world blacksmith_id =
      (sample_world\<lparr>trace := [CacheGet (''movie:'' @ blacksmith_id),
          ConsoleLog ''No movie found in Redis cache, fetching from MongoDB'',
          StoreFindOne 27017]\<rparr>, Inr blacksmith)"
    using findOne_blacksmith
    by (simp add: redisServer_get_id_begin_def blacksmith_id_parsed collaborator_defs
        no_faults_def sample_world_def)
  have w: "reading_world = sample_world\<lparr>trace := [CacheGet (''movie:'' @ blacksmith_id),
          ConsoleLog ''No movie found in Redis cache, fetching from MongoDB'',
          StoreFindOne 27017]\<rparr>"
    by (simp add: reading_world_def suspended)
  show ?thesis
    unfolding suspended w
    by (simp add: redisServer_delete_id_def redisServer_get_id_resume_def
        redisServer_get_id_def blacksmith_id_parsed effect_simps no_faults_def findOne_def
        sample_world_def blacksmith_def robbery_def simplifyMovie_def)
qed

section \<open>Identifiers that do not parse\<close>

text \<open>
  Counterexample to claim C4 as stated. The read by identifier of \<^verbatim>\<open>server.js\<close>, given a
  string that is not an identifier, answers with status 500, a server error and not a
  client error: the constructor throws inside the \<^verbatim>\<open>try\<close>, and the \<^verbatim>\<open>catch\<close> answers
  every exception with 500.
\<close>

theorem invalid_id_is_server_error:
  "snd (server_get_id hexObjectId no_faults sample_world ''not-an-id'') =
     Response 500
       (ErrorBody ''input must be a 24 character hex string, 12 byte Uint8Array, or an integer'') \<and>
   \<not> is_client_error (snd (server_get_id hexObjectId no_faults sample_world ''not-an-id''))"
  by (simp add: server_get_id_def not_an_id_refused)


text \<open>
  Claim C4, amended. When the identifier string does not parse, every handler that builds
  the identifier inside its \<^verbatim>\<open>try\<close> (read, update and delete of \<^verbatim>\<open>server.js\<close> and of
  \<^verbatim>\<open>part_000\<close>, update and delete of \<^verbatim>\<open>redisServer.js\<close>) answers with status 500 and the
  body \<^verbatim>\<open>{ error: message }\<close>, whatever the faults, and touches neither the store nor the
  cache. The read by identifier of \<^verbatim>\<open>redisServer.js\<close> is not part of the statement.
\<close>

theorem invalid_id_caught:
  assumes "ObjectId s = Inl e"
  shows
    "server_get_id ObjectId f w s = (w, Response 500 (ErrorBody (message e))) \<and>
     server_patch_id ObjectId f w s t = (w, Response 500 (ErrorBody (message e))) \<and>
     server_delete_id ObjectId f w s = (w, Response 500 (ErrorBody (message e))) \<and>
     part000_get_id ObjectId f w s = (w, Response 500 (ErrorBody (message e))) \<and>
     part000_patch_id ObjectId f w s t = (w, Response 500 (ErrorBody (message e))) \<and>
     part000_delete_id ObjectId f w s = (w, Response 500 (ErrorBody (message e))) \<and>
     redisServer_patch_id ObjectId f w s t = (w, Response 500 (ErrorBody (message e))) \<and>
     redisServer_delete_id ObjectId f w s = (w, Response 500 (ErrorBody (message e)))"
  using assms
  by (simp add: server_get_id_def server_patch_id_def server_delete_id_def
      part000_get_id_def part000_patch_id_def part000_delete_id_def
      redisServer_patch_id_def redisServer_delete_id_def)


text \<open>The amended claim C4 at a string that is not 24 hexadecimal digits.\<close>

theorem invalid_id_caught_witness:
  "hexObjectId ''not-an-id'' = Inl (Err ''BSONError''
     ''input must be a 24 character hex string, 12 byte Uint8Array, or an integer'' None) \<and>
   redisServer_delete_id hexObjectId no_faults sample_world ''not-an-id'' =
     (sample_world, Response 500
        (ErrorBody ''input must be a 24 character hex string, 12 byte Uint8Array, or an integer''))"
  using invalid_id_caught [where ObjectId = hexObjectId and s = "''not-an-id''"
      and f = no_faults and w = sample_world, OF not_an_id_refused] not_an_id_refused
  by simp


text \<open>
  The read by identifier of \<^verbatim>\<open>redisServer.js\<close> builds the identifier inside the callback
  of the cache read: on a cache miss the exception escapes, and no response is sent.
\<close>

lemma redisServer_get_id_invalid_id:
  assumes "ObjectId s = Inl e" and "cacheGetErr f = None" and "cache w (''movie:'' @ s) = None"
  shows "snd (redisServer_get_id ObjectId f w s) = Unhandled e"
  using assms by (simp add: redisServer_get_id_def collaborator_defs)


section \<open>Reading a movie twice\<close>

text \<open>
  Claim C5, amended. For an identifier string that parses, whose movie is in the store and
  whose key is not cached yet, without faults: in \<^verbatim>\<open>redisServer.js\<close> the first read
  answers 200 with the projection of the movie and issues exactly one cache write, of
  that projection under the movie's key; the second read answers 200 with the same
  projection, queries the store not at all and writes nothing to the cache. The reads by
  identifier of \<^verbatim>\<open>server.js\<close> and \<^verbatim>\<open>part_000\<close> use no cache: each call queries the
  store once and answers 200 with the full document.
\<close>

theorem get_id_cached_once:
  assumes "ObjectId s = Inr i" and "findOne i (db w) = Some m"
    and "cache w (''movie:'' @ s) = None"
  shows
    "snd (redisServer_get_id ObjectId no_faults w s) =
       Response 200 (Simplified (simplifyMovie m)) \<and>
     filter is_cache_set (since w (fst (redisServer_get_id ObjectId no_faults w s))) =
       [CacheSet (''movie:'' @ s) (Simplified (simplifyMovie m))] \<and>
     cache (fst (redisServer_get_id ObjectId no_faults w s)) (''movie:'' @ s) =
       Some (Simplified (simplifyMovie m)) \<and>
     snd (redisServer_get_id ObjectId no_faults
            (fst (redisServer_get_id ObjectId no_faults w s)) s) =
       Response 200 (Simplified (simplifyMovie m)) \<and>
     filter is_store_query
       (since (fst (redisServer_get_id ObjectId no_faults w s))
          (fst (redisServer_get_id ObjectId no_faults
                  (fst (redisServer_get_id ObjectId no_faults w s)) s))) = [] \<and>
     filter is_cache_set
       (since (fst (redisServer_get_id ObjectId no_faults w s))
          (fst (redisServer_get_id ObjectId no_faults
                  (fst (redisServer_get_id ObjectId no_faults w s)) s))) = [] \<and>
     server_get_id ObjectId no_faults w s =
       (w\<lparr>trace := trace w @ [StoreFindOne i]\<rparr>, Response 200 (Movie m)) \<and>
     part000_get_id ObjectId no_faults w s =
       (w\<lparr>trace := trace w @ [StoreFindOne i]\<rparr>, Response 200 (Movie m))"
proof -
  have plain: "server_get_id ObjectId no_faults w s =
       (w\<lparr>trace := trace w @ [StoreFindOne i]\<rparr>, Response 200 (Movie m))"
    "part000_get_id ObjectId no_faults w s =
       (w\<lparr>trace := trace w @ [StoreFindOne i]\<rparr>, Response 200 (Movie m))"
    using assms
    by (simp_all add: server_get_id_def part000_get_id_def collaborator_defs no_faults_def)
  let ?k = "''movie:'' @ s"
  let ?b = "Simplified (simplifyMovie m)"
  let ?w1 = "w\<lparr>cache := (cache w)(?k \<mapsto> ?b),
      trace := trace w @ [CacheGet ?k,
        ConsoleLog ''No movie found in Redis cache, fetching from MongoDB'',
        StoreFindOne i, CacheSet ?k ?b, ConsoleLog ''Cached movie in Redis'']\<rparr>"
  have first: "redisServer_get_id ObjectId no_faults w s = (?w1, Response 200 ?b)"
    using assms by (simp add: redisServer_get_id_def collaborator_defs no_faults_def)
  have second: "redisServer_get_id ObjectId no_faults ?w1 s =
      (?w1\<lparr>trace := trace ?w1 @ [CacheGet ?k, ConsoleLog ''Fetching movie from Redis cache'']\<rparr>,
       Response 200 ?b)"
    by (simp add: redisServer_get_id_def collaborator_defs no_faults_def)
  have s1: "since w ?w1 = [CacheGet ?k,
        ConsoleLog ''No movie found in Redis cache, fetching from MongoDB'',
        StoreFindOne i, CacheSet ?k ?b, ConsoleLog ''Cached movie in Redis'']"
    by (simp add: since_def)
  show ?thesis
    unfolding first second plain fst_conv snd_conv s1 since_append
    by simp
qed


text \<open>
  Counterexample to claim C5 as stated. In \<^verbatim>\<open>server.js\<close> the first read of a movie by
  its identifier writes nothing to the cache, and the second read queries the store
  again.
\<close>

theorem second_read_queries_store:
  "filter is_cache_set
     (since sample_world (fst (server_get_id hexObjectId no_faults sample_world blacksmith_id))) = [] \<and>
   filter is_store_query
     (since (fst (server_get_id hexObjectId no_faults sample_world blacksmith_id))
        (fst (server_get_id hexObjectId no_faults
                (fst (server_get_id hexObjectId no_faults sample_world blacksmith_id))
                blacksmith_id))) = [StoreFindOne 27017]"
  using findOne_blacksmith
  by (simp add: server_get_id_def blacksmith_id_parsed collaborator_defs no_faults_def since_def)


text \<open>The amended claim C5 at the first movie of the sample collection.\<close>

theorem get_id_cached_once_witness:
  "hexObjectId blacksmith_id = Inr 27017 \<and>
   findOne 27017 (db sample_world) = Some blacksmith \<and>
   cache sample_world (''movie:'' @ blacksmith_id) = None \<and>
   snd (redisServer_get_id hexObjectId no_faults sample_world blacksmith_id) =
     Response 200 (Simplified (simplifyMovie blacksmith)) \<and>
   snd (redisServer_get_id hexObjectId no_faults cached_world blacksmith_id) =
     Response 200 (Simplified (simplifyMovie blacksmith)) \<and>
   filter is_store_query
     (since cached_world
        (fst (redisServer_get_id hexObjectId no_faults cached_world blacksmith_id))) = []"
proof -
  have a: "cache sample_world (''movie:'' @ blacksmith_id) = None"
    by (simp add: sample_world_def)
  note h = get_id_cached_once [where ObjectId = hexObjectId and s = blacksmith_id,
      OF blacksmith_id_parsed findOne_blacksmith a, folded cached_world_def]
  from h blacksmith_id_parsed findOne_blacksmith a show ?thesis by blast
qed



section \<open>The list handler of the caching variants\<close>

text \<open>
  What the list handlers of \<^verbatim>\<open>part_000\<close> and \<^verbatim>\<open>redisServer.js\<close> do when the cache read
  fails, when it finds a value and when it finds none.
\<close>

lemma part000_get_all_error:
  "cacheGetErr f = Some e \<Longrightarrow>
   part000_get_all f w =
     (w\<lparr>trace := trace w @ [CacheGet ''movies'',
         ConsoleError (''Error fetching movies from Redis: '' @ toString e)]\<rparr>, Next e)"
  by (simp add: part000_get_all_def collaborator_defs)

lemma redisServer_get_all_error:
  "cacheGetErr f = Some e \<Longrightarrow>
   redisServer_get_all f w =
     (w\<lparr>trace := trace w @ [CacheGet ''movies'',
         ConsoleError (''Error fetching movies from Redis: '' @ toString e)]\<rparr>, Next e)"
  by (simp add: redisServer_get_all_def collaborator_defs)

lemma part000_get_all_hit:
  "cacheGetErr f = None \<Longrightarrow> cache w ''movies'' = Some c \<Longrightarrow>
   part000_get_all f w =
     (w\<lparr>trace := trace w @ [CacheGet ''movies'',
         ConsoleLog ''Fetching movies from Redis cache'']\<rparr>, Response 200 c)"
  by (simp add: part000_get_all_def collaborator_defs)

lemma redisServer_get_all_hit:
  "cacheGetErr f = None \<Longrightarrow> cache w ''movies'' = Some c \<Longrightarrow>
   redisServer_get_all f w =
     (w\<lparr>trace := trace w @ [CacheGet ''movies'',
         ConsoleLog ''Fetching movies from Redis cache'']\<rparr>, Response 200 c)"
  by (simp add: redisServer_get_all_def collaborator_defs)

lemma part000_get_all_miss:
  "cacheGetErr f = None \<Longrightarrow> cache w ''movies'' = None \<Longrightarrow> storeErr f = None \<Longrightarrow>
   part000_get_all f w =
     (case cacheSetErr f of
        None \<Rightarrow>
          w\<lparr>cache := (cache w)(''movies'' \<mapsto> Movies (take 10 (db w))),
            trace := trace w @ [CacheGet ''movies'',
              ConsoleLog ''No movies found in Redis cache, fetching from MongoDB'', StoreFind,
              CacheSet ''movies'' (Movies (take 10 (db w))),
              ConsoleLog ''Cached movies in Redis'']\<rparr>
      | Some e \<Rightarrow>
          w\<lparr>trace := trace w @ [CacheGet ''movies'',
              ConsoleLog ''No movies found in Redis cache, fetching from MongoDB'', StoreFind,
              CacheSet ''movies'' (Movies (take 10 (db w))),
              ConsoleError (''Error caching movies in Redis: '' @ toString e)]\<rparr>,
      Response 200 (Movies (take 10 (db w))))"
  by (simp add: part000_get_all_def collaborator_defs split: option.split)

lemma redisServer_get_all_miss:
  "cacheGetErr f = None \<Longrightarrow> cache w ''movies'' = None \<Longrightarrow> storeErr f = None \<Longrightarrow>
   redisServer_get_all f w =
     (case cacheSetErr f of
        None \<Rightarrow>
          w\<lparr>cache := (cache w)(''movies'' \<mapsto>
                SimplifiedList (map simplifyMovie (take 10 (db w)))),
            trace := trace w @ [CacheGet ''movies'',
              ConsoleLog ''No movies found in Redis cache, fetching from MongoDB'', StoreFind,
              CacheSet ''movies'' (SimplifiedList (map simplifyMovie (take 10 (db w)))),
              ConsoleLog ''Cached movies in Redis'']\<rparr>
      | Some e \<Rightarrow>
          w\<lparr>trace := trace w @ [CacheGet ''movies'',
              ConsoleLog ''No movies found in Redis cache, fetching from MongoDB'', StoreFind,
              CacheSet ''movies'' (SimplifiedList (map simplifyMovie (take 10 (db w)))),
              ConsoleError (''Error caching movies in Redis: '' @ toString e)]\<rparr>,
      Response 200 (SimplifiedList (map simplifyMovie (take 10 (db w)))))"
  by (simp add: redisServer_get_all_def collaborator_defs split: option.split)


text \<open>
  Claim C6. In both caching variants, when the cache read succeeds: if the list key is
  set, the handler answers 200 with the cached value as it is and queries the store not at
  all; if it is unset and the store query succeeds, the handler queries the store once,
  for the first 10 documents at most, takes them as they are in \<^verbatim>\<open>part_000\<close> and maps each
  to the object \<^verbatim>\<open>{ id, name, title }\<close> made of its identifier, its name and its title in
  \<^verbatim>\<open>redisServer.js\<close>, issues one cache write of that result under the list key, which
  holds it afterwards when the write succeeds, and answers 200 with that result.
\<close>

theorem get_all_cache_policy:
  assumes "cacheGetErr f = None"
  shows
    "(cache w ''movies'' = Some c \<longrightarrow>
        snd (part000_get_all f w) = Response 200 c \<and>
        filter is_store_query (since w (fst (part000_get_all f w))) = [] \<and>
        snd (redisServer_get_all f w) = Response 200 c \<and>
        filter is_store_query (since w (fst (redisServer_get_all f w))) = []) \<and>
     (cache w ''movies'' = None \<and> storeErr f = None \<longrightarrow>
        snd (part000_get_all f w) = Response 200 (Movies (take 10 (db w))) \<and>
        filter is_store_query (since w (fst (part000_get_all f w))) = [StoreFind] \<and>
        filter is_cache_set (since w (fst (part000_get_all f w))) =
          [CacheSet ''movies'' (Movies (take 10 (db w)))] \<and>
        (cacheSetErr f = None \<longrightarrow>
           cache (fst (part000_get_all f w)) ''movies'' = Some (Movies (take 10 (db w)))) \<and>
        snd (redisServer_get_all f w) =
          Response 200
            (SimplifiedList
               (map (\<lambda>m. \<lparr>simple_id = movie_id m, simple_name = name m,
                             simple_title = title m\<rparr>)
                  (take 10 (db w)))) \<and>
        filter is_store_query (since w (fst (redisServer_get_all f w))) = [StoreFind] \<and>
        filter is_cache_set (since w (fst (redisServer_get_all f w))) =
          [CacheSet ''movies''
             (SimplifiedList
                (map (\<lambda>m. \<lparr>simple_id = movie_id m, simple_name = name m,
                              simple_title = title m\<rparr>)
                   (take 10 (db w))))] \<and>
        (cacheSetErr f = None \<longrightarrow>
           cache (fst (redisServer_get_all f w)) ''movies'' =
             Some (SimplifiedList
                     (map (\<lambda>m. \<lparr>simple_id = movie_id m, simple_name = name m,
                                   simple_title = title m\<rparr>)
                        (take 10 (db w))))) \<and>
        length (take 10 (db w)) \<le> 10)"
proof (intro conjI impI)
  assume hit: "cache w ''movies'' = Some c"
  show "snd (part000_get_all f w) = Response 200 c"
    by (simp add: part000_get_all_hit [OF assms hit])
  show "filter is_store_query (since w (fst (part000_get_all f w))) = []"
    by (simp add: part000_get_all_hit [OF assms hit])
  show "snd (redisServer_get_all f w) = Response 200 c"
    by (simp add: redisServer_get_all_hit [OF assms hit])
  show "filter is_store_query (since w (fst (redisServer_get_all f w))) = []"
    by (simp add: redisServer_get_all_hit [OF assms hit])
next
  assume miss: "cache w ''movies'' = None \<and> storeErr f = None"
  let ?projection = "\<lambda>m. \<lparr>simple_id = movie_id m, simple_name = name m, simple_title = title m\<rparr>"
  note p = part000_get_all_miss [OF assms conjunct1 [OF miss] conjunct2 [OF miss]]
  note r = redisServer_get_all_miss [OF assms conjunct1 [OF miss] conjunct2 [OF miss],
      unfolded simplifyMovie_fields]
  show "snd (part000_get_all f w) = Response 200 (Movies (take 10 (db w)))"
    by (simp add: p)
  show "filter is_store_query (since w (fst (part000_get_all f w))) = [StoreFind]"
    by (simp add: p since_def split: option.split)
  show "filter is_cache_set (since w (fst (part000_get_all f w))) =
      [CacheSet ''movies'' (Movies (take 10 (db w)))]"
    by (simp add: p since_def split: option.split)
  show "snd (redisServer_get_all f w) =
      Response 200 (SimplifiedList (map ?projection (take 10 (db w))))"
    by (simp add: r)
  show "filter is_store_query (since w (fst (redisServer_get_all f w))) = [StoreFind]"
    by (simp add: r since_def split: option.split)
  show "filter is_cache_set (since w (fst (redisServer_get_all f w))) =
      [CacheSet ''movies'' (SimplifiedList (map ?projection (take 10 (db w))))]"
    by (simp add: r since_def split: option.split)
  show "length (take 10 (db w)) \<le> 10"
    by simp
  {
    assume ok: "cacheSetErr f = None"
    show "cache (fst (part000_get_all f w)) ''movies'' = Some (Movies (take 10 (db w)))"
      by (simp add: p ok)
    show "cache (fst (redisServer_get_all f w)) ''movies'' =
        Some (SimplifiedList (map ?projection (take 10 (db w))))"
      by (simp add: r ok)
  }
qed

lemma sample_world_list_key: "cache sample_world ''movies'' = None"
  by (simp add: sample_world_def)

lemma no_faults_simps:
  "storeErr no_faults = None" "refetchErr no_faults = None" "cacheGetErr no_faults = None"
  "cacheSetErr no_faults = None" "cacheDelItemErr no_faults = None" "cacheDelErr no_faults = None"
  by (simp_all add: no_faults_def)

text \<open>
  Claim C6 at a collection whose first movie has a name: a first call of the list handler
  of \<^verbatim>\<open>redisServer.js\<close> misses, answers with the two projections and caches them; a second
  call answers with the cached list and does not query the store. The list handler of
  \<^verbatim>\<open>part_000\<close> answers the first call with the two documents as they are.
\<close>

theorem get_all_cache_policy_witness:
  "cacheGetErr no_faults = None \<and> cache named_world ''movies'' = None \<and>
   storeErr no_faults = None \<and> cacheSetErr no_faults = None \<and>
   snd (redisServer_get_all no_faults named_world) =
     Response 200 (SimplifiedList
       [\<lparr>simple_id = 27019, simple_name = Some ''kid'', simple_title = Some ''The Kid''\<rparr>,
        \<lparr>simple_id = 27017, simple_name = None, simple_title = Some ''Blacksmith Scene''\<rparr>]) \<and>
   cache (fst (redisServer_get_all no_faults named_world)) ''movies'' =
     Some (SimplifiedList
       [\<lparr>simple_id = 27019, simple_name = Some ''kid'', simple_title = Some ''The Kid''\<rparr>,
        \<lparr>simple_id = 27017, simple_name = None, simple_title = Some ''Blacksmith Scene''\<rparr>]) \<and>
   snd (redisServer_get_all no_faults (fst (redisServer_get_all no_faults named_world))) =
     Response 200 (SimplifiedList
       [\<lparr>simple_id = 27019, simple_name = Some ''kid'', simple_title = Some ''The Kid''\<rparr>,
        \<lparr>simple_id = 27017, simple_name = None, simple_title = Some ''Blacksmith Scene''\<rparr>]) \<and>
   filter is_store_query
     (since (fst (redisServer_get_all no_faults named_world))
        (fst (redisServer_get_all no_faults
                (fst (redisServer_get_all no_faults named_world))))) = [] \<and>
   snd (part000_get_all no_faults named_world) =
     Response 200 (Movies
       [\<lparr>movie_id = 27019, name = Some ''kid'', title = Some ''The Kid'',
           other_fields = [(''year'', ''1921'')]\<rparr>,
        \<lparr>movie_id = 27017, name = None, title = Some ''Blacksmith Scene'',
           other_fields = [(''year'', ''1893'')]\<rparr>])"
proof -
  let ?list = "SimplifiedList
       [\<lparr>simple_id = 27019, simple_name = Some ''kid'', simple_title = Some ''The Kid''\<rparr>,
        \<lparr>simple_id = 27017, simple_name = None, simple_title = Some ''Blacksmith Scene''\<rparr>]"
  have a: "cache named_world ''movies'' = None"
    by (simp add: named_world_def)
  have projected: "SimplifiedList
       (map (\<lambda>m. \<lparr>simple_id = movie_id m, simple_name = name m, simple_title = title m\<rparr>)
          (take 10 (db named_world))) = ?list"
    by (simp add: named_world_def kid_def blacksmith_def)
  have plain: "Movies (take 10 (db named_world)) = Movies
       [\<lparr>movie_id = 27019, name = Some ''kid'', title = Some ''The Kid'',
           other_fields = [(''year'', ''1921'')]\<rparr>,
        \<lparr>movie_id = 27017, name = None, title = Some ''Blacksmith Scene'',
           other_fields = [(''year'', ''1893'')]\<rparr>]"
    by (simp add: named_world_def kid_def blacksmith_def)
  note miss = get_all_cache_policy [where f = no_faults and w = named_world,
      OF no_faults_simps(3), unfolded projected plain]
  note hit = get_all_cache_policy [where f = no_faults
      and w = "fst (redisServer_get_all no_faults named_world)" and c = ?list,
      OF no_faults_simps(3)]
  from miss hit no_faults_simps a show ?thesis by blast
qed


text \<open>
  Claim C7. In both caching variants, when the cache read of the list key passes an error
  to its callback, the list handler logs it and forwards it with \<^verbatim>\<open>next(err)\<close>; the store
  is not queried, and store and cache are unchanged.
\<close>

theorem get_all_cache_error_propagates:
  assumes "cacheGetErr f = Some e"
  shows
    "part000_get_all f w =
       (w\<lparr>trace := trace w @ [CacheGet ''movies'',
           ConsoleError (''Error fetching movies from Redis: '' @ toString e)]\<rparr>, Next e) \<and>
     filter is_store_query (since w (fst (part000_get_all f w))) = [] \<and>
     redisServer_get_all f w =
       (w\<lparr>trace := trace w @ [CacheGet ''movies'',
           ConsoleError (''Error fetching movies from Redis: '' @ toString e)]\<rparr>, Next e) \<and>
     filter is_store_query (since w (fst (redisServer_get_all f w))) = []"
  by (simp add: part000_get_all_error [OF assms] redisServer_get_all_error [OF assms])


text \<open>
  Claim C7 at the sample collection, with the cache down; the error handler turns the
  forwarded error into a response with status 500.
\<close>

theorem get_all_cache_error_propagates_witness:
  "cacheGetErr (no_faults\<lparr>cacheGetErr := Some redis_down\<rparr>) = Some redis_down \<and>
   snd (redisServer_get_all (no_faults\<lparr>cacheGetErr := Some redis_down\<rparr>) sample_world) =
     Next redis_down \<and>
   filter is_store_query
     (since sample_world
        (fst (redisServer_get_all (no_faults\<lparr>cacheGetErr := Some redis_down\<rparr>) sample_world))) = [] \<and>
   error_handler redis_down =
     Response 500 (ErrorPage ''Redis connection to localhost:6379 failed'')"
proof -
  have a: "cacheGetErr (no_faults\<lparr>cacheGetErr := Some redis_down\<rparr>) = Some redis_down"
    by simp
  have b: "error_handler redis_down =
     Response 500 (ErrorPage ''Redis connection to localhost:6379 failed'')"
    by (simp add: error_handler_def redis_down_def)
  note h = get_all_cache_error_propagates [where w = sample_world, OF a]
  have c: "snd (redisServer_get_all (no_faults\<lparr>cacheGetErr := Some redis_down\<rparr>) sample_world) =
     Next redis_down"
    using h by simp
  from h a b c show ?thesis by blast
qed


section \<open>Updating or deleting a movie that is not in the store\<close>

text \<open>
  Claim C9. For an identifier string that parses and matches no document, when the store
  command succeeds, the update handler of every variant answers 200 with the driver's
  result summary, \<^verbatim>\<open>matchedCount\<close> and \<^verbatim>\<open>modifiedCount\<close> 0, and the delete handler of
  every variant answers 200 with \<^verbatim>\<open>deletedCount\<close> 0; none answers 404.
\<close>

theorem unmatched_update_delete_200:
  assumes "ObjectId s = Inr i" and "findOne i (db w) = None" and "storeErr f = None"
  shows
    "snd (server_patch_id ObjectId f w s t) = Response 200 (UpdateResult 0 0) \<and>
     snd (part000_patch_id ObjectId f w s t) = Response 200 (UpdateResult 0 0) \<and>
     snd (redisServer_patch_id ObjectId f w s t) = Response 200 (UpdateResult 0 0) \<and>
     snd (server_delete_id ObjectId f w s) = Response 200 (DeleteResult 0) \<and>
     snd (part000_delete_id ObjectId f w s) = Response 200 (DeleteResult 0) \<and>
     snd (redisServer_delete_id ObjectId f w s) = Response 200 (DeleteResult 0)"
  using assms
  by (simp add: server_patch_id_def part000_patch_id_def redisServer_patch_id_def
      server_delete_id_def part000_delete_id_def redisServer_delete_id_def
      collection_updateOne_def collection_deleteOne_def redis_del_pair Let_def)


text \<open>Claim C9 at an identifier that is not in the sample collection.\<close>

theorem unmatched_update_delete_200_witness:
  "hexObjectId unknown_id = Inr 65535 \<and> findOne 65535 (db sample_world) = None \<and>
   storeErr no_faults = None \<and>
   snd (server_patch_id hexObjectId no_faults sample_world unknown_id ''Smithy'') =
     Response 200 (UpdateResult 0 0) \<and>
   snd (redisServer_delete_id hexObjectId no_faults sample_world unknown_id) =
     Response 200 (DeleteResult 0)"
proof -
  note h = unmatched_update_delete_200 [where ObjectId = hexObjectId and s = unknown_id
      and t = "''Smithy''", OF unknown_id_parsed findOne_unknown no_faults_simps(1)]
  from h unknown_id_parsed findOne_unknown no_faults_simps(1) show ?thesis by blast
qed


section \<open>A cache write that fails on a read\<close>

text \<open>
  Claim C10. When a read misses the cache, the store query succeeds and the cache write
  that follows fails, the handler still answers 200 with the data it fetched, and the
  only trace of the error is one line on the error console; store and cache are
  unchanged. This holds for the list handlers of \<^verbatim>\<open>part_000\<close> and \<^verbatim>\<open>redisServer.js\<close>
  and for the read by identifier of \<^verbatim>\<open>redisServer.js\<close>.
\<close>

theorem cache_set_failure_not_fatal:
  assumes "cacheGetErr f = None" and "storeErr f = None" and "cacheSetErr f = Some e"
  shows
    "(cache w ''movies'' = None \<longrightarrow>
        part000_get_all f w =
          (w\<lparr>trace := trace w @ [CacheGet ''movies'',
              ConsoleLog ''No movies found in Redis cache, fetching from MongoDB'', StoreFind,
              CacheSet ''movies'' (Movies (take 10 (db w))),
              ConsoleError (''Error caching movies in Redis: '' @ toString e)]\<rparr>,
           Response 200 (Movies (take 10 (db w)))) \<and>
        redisServer_get_all f w =
          (w\<lparr>trace := trace w @ [CacheGet ''movies'',
              ConsoleLog ''No movies found in Redis cache, fetching from MongoDB'', StoreFind,
              CacheSet ''movies'' (SimplifiedList (map simplifyMovie (take 10 (db w)))),
              ConsoleError (''Error caching movies in Redis: '' @ toString e)]\<rparr>,
           Response 200 (SimplifiedList (map simplifyMovie (take 10 (db w)))))) \<and>
     (cache w (''movie:'' @ s) = None \<and> ObjectId s = Inr i \<and> findOne i (db w) = Some m \<longrightarrow>
        redisServer_get_id ObjectId f w s =
          (w\<lparr>trace := trace w @ [CacheGet (''movie:'' @ s),
              ConsoleLog ''No movie found in Redis cache, fetching from MongoDB'',
              StoreFindOne i,
              CacheSet (''movie:'' @ s) (Simplified (simplifyMovie m)),
              ConsoleError (''Error caching movie in Redis: '' @ toString e)]\<rparr>,
           Response 200 (Simplified (simplifyMovie m))))"
proof (intro conjI impI)
  assume miss: "cache w ''movies'' = None"
  show "part000_get_all f w =
          (w\<lparr>trace := trace w @ [CacheGet ''movies'',
              ConsoleLog ''No movies found in Redis cache, fetching from MongoDB'', StoreFind,
              CacheSet ''movies'' (Movies (take 10 (db w))),
              ConsoleError (''Error caching movies in Redis: '' @ toString e)]\<rparr>,
           Response 200 (Movies (take 10 (db w))))"
    by (simp add: part000_get_all_miss [OF assms(1) miss assms(2)] assms(3))
  show "redisServer_get_all f w =
          (w\<lparr>trace := trace w @ [CacheGet ''movies'',
              ConsoleLog ''No movies found in Redis cache, fetching from MongoDB'', StoreFind,
              CacheSet ''movies'' (SimplifiedList (map simplifyMovie (take 10 (db w)))),
              ConsoleError (''Error caching movies in Redis: '' @ toString e)]\<rparr>,
           Response 200 (SimplifiedList (map simplifyMovie (take 10 (db w)))))"
    by (simp add: redisServer_get_all_miss [OF assms(1) miss assms(2)] assms(3))
next
  assume "cache w (''movie:'' @ s) = None \<and> ObjectId s = Inr i \<and> findOne i (db w) = Some m"
  with assms show "redisServer_get_id ObjectId f w s =
          (w\<lparr>trace := trace w @ [CacheGet (''movie:'' @ s),
              ConsoleLog ''No movie found in Redis cache, fetching from MongoDB'',
              StoreFindOne i,
              CacheSet (''movie:'' @ s) (Simplified (simplifyMovie m)),
              ConsoleError (''Error caching movie in Redis: '' @ toString e)]\<rparr>,
           Response 200 (Simplified (simplifyMovie m)))"
    by (simp add: redisServer_get_id_def collaborator_defs)
qed


text \<open>Claim C10 at the sample collection, with the cache refusing writes.\<close>

theorem cache_set_failure_not_fatal_witness:
  "cacheGetErr (no_faults\<lparr>cacheSetErr := Some redis_down\<rparr>) = None \<and>
   storeErr (no_faults\<lparr>cacheSetErr := Some redis_down\<rparr>) = None \<and>
   cacheSetErr (no_faults\<lparr>cacheSetErr := Some redis_down\<rparr>) = Some redis_down \<and>
   cache sample_world ''movies'' = None \<and>
   cache sample_world (''movie:'' @ blacksmith_id) = None \<and>
   hexObjectId blacksmith_id = Inr 27017 \<and>
   findOne 27017 (db sample_world) = Some blacksmith \<and>
   snd (part000_get_all (no_faults\<lparr>cacheSetErr := Some redis_down\<rparr>) sample_world) =
     Response 200 (Movies (take 10 (db sample_world))) \<and>
   snd (redisServer_get_id hexObjectId (no_faults\<lparr>cacheSetErr := Some redis_down\<rparr>)
          sample_world blacksmith_id) =
     Response 200 (Simplified (simplifyMovie blacksmith))"
proof -
  let ?f = "no_faults\<lparr>cacheSetErr := Some redis_down\<rparr>"
  have a: "cacheGetErr ?f = None" "storeErr ?f = None" "cacheSetErr ?f = Some redis_down"
    by (simp_all add: no_faults_def)
  have b: "cache sample_world (''movie:'' @ blacksmith_id) = None"
    by (simp add: sample_world_def)
  note h = cache_set_failure_not_fatal [where ObjectId = hexObjectId and s = blacksmith_id
      and w = sample_world and i = 27017 and m = blacksmith, OF a]
  have c: "snd (part000_get_all ?f sample_world) =
     Response 200 (Movies (take 10 (db sample_world)))"
    using h sample_world_list_key by simp
  have d: "snd (redisServer_get_id hexObjectId ?f sample_world blacksmith_id) =
     Response 200 (Simplified (simplifyMovie blacksmith))"
    using h b blacksmith_id_parsed findOne_blacksmith by simp
  from a b c d sample_world_list_key blacksmith_id_parsed findOne_blacksmith
  show ?thesis by blast
qed




section \<open>The size of the list\<close>

text \<open>
  No handler of any variant breaks the invariant \<open>list_key_ok\<close>: the list key is only
  ever deleted, or written with the result of a store query limited to 10 documents.
\<close>

lemma list_key_ok_server:
  "cache (fst (server_get_all f w)) = cache w"
  "cache (fst (server_get_id ObjectId f w s)) = cache w"
  "cache (fst (server_patch_id ObjectId f w s t)) = cache w"
  "cache (fst (server_delete_id ObjectId f w s)) = cache w"
  by (simp_all add: server_get_all_def server_get_id_def server_patch_id_def
      server_delete_id_def collaborator_defs split: option.split sum.split)

lemma list_key_ok_part000:
  assumes "list_key_ok w"
  shows "list_key_ok (fst (part000_get_all f w))"
    and "list_key_ok (fst (part000_get_id ObjectId f w s))"
    and "list_key_ok (fst (part000_patch_id ObjectId f w s t))"
    and "list_key_ok (fst (part000_delete_id ObjectId f w s))"
  using assms
  by (auto simp: list_key_ok_def at_most_10_def part000_get_all_def part000_get_id_def
      part000_patch_id_def part000_delete_id_def collaborator_defs
      split: option.splits sum.splits)

lemma list_key_ok_redisServer:
  assumes "list_key_ok w"
  shows "list_key_ok (fst (redisServer_get_all f w))"
    and "list_key_ok (fst (redisServer_get_id ObjectId f w s))"
    and "list_key_ok (fst (redisServer_patch_id ObjectId f w s t))"
    and "list_key_ok (fst (redisServer_delete_id ObjectId f w s))"
  using assms
  by (auto simp: list_key_ok_def at_most_10_def redisServer_get_all_def
      redisServer_get_id_def redisServer_patch_id_def redisServer_delete_id_def
      effect_simps split: option.splits sum.splits)

lemma list_key_ok_handle:
  "list_key_ok w \<Longrightarrow> list_key_ok (fst (handle ObjectId v f w r))"
  by (cases v; cases r)
    (simp_all add: list_key_ok_part000 list_key_ok_redisServer,
     simp_all add: list_key_ok_def list_key_ok_server)

lemma list_key_ok_run:
  "list_key_ok w \<Longrightarrow> list_key_ok (run ObjectId w rs)"
proof (induction rs arbitrary: w)
  case Nil
  then show ?case by simp
next
  case (Cons r rs)
  obtain v f q where r: "r = (v, f, q)"
    by (cases r) auto
  from Cons.prems have "list_key_ok (fst (handle ObjectId v f w q))"
    by (rule list_key_ok_handle)
  then have "list_key_ok (run ObjectId (fst (handle ObjectId v f w q)) rs)"
    by (rule Cons.IH)
  with r show ?case by simp
qed

lemma get_all_list_key_ok:
  assumes "list_key_ok w" and "snd (handle ObjectId v f w GetAll) = Response 200 b"
  shows "at_most_10 b"
proof (cases v)
  case Server
  with assms(2) show ?thesis
    by (auto simp: server_get_all_def collection_find_def at_most_10_def
        split: option.splits)
next
  case Part000
  with assms show ?thesis
    by (auto simp: part000_get_all_def collaborator_defs list_key_ok_def at_most_10_def
        split: option.splits)
next
  case RedisServer
  with assms show ?thesis
    by (auto simp: redisServer_get_all_def collaborator_defs list_key_ok_def at_most_10_def
        split: option.splits)
qed


text \<open>
  Claim C8. Start with the list key unset and serve any requests, each by any variant and
  under any faults. Whenever the list handler of any variant then answers 200, the body is
  a list of at most 10 entries, on the cache-hit path too.
\<close>

theorem get_all_at_most_10:
  assumes "cache w0 ''movies'' = None"
    and "snd (handle ObjectId v f (run ObjectId w0 rs) GetAll) = Response 200 b"
  shows "at_most_10 b"
proof -
  from assms(1) have "list_key_ok w0"
    by (simp add: list_key_ok_def)
  then have "list_key_ok (run ObjectId w0 rs)"
    by (rule list_key_ok_run)
  then show ?thesis
    using assms(2) by (rule get_all_list_key_ok)
qed

lemma take_10_twelve_movies: "length (take 10 twelve_movies) = 10"
  by (simp add: twelve_movies_def)


text \<open>
  Claim C8 at a collection of twelve movies: the list handler of \<^verbatim>\<open>part_000\<close> fills the
  cache, and its next call answers from the cache with exactly 10 entries.
\<close>

theorem get_all_at_most_10_witness:
  "cache crowded_world ''movies'' = None \<and>
   snd (handle hexObjectId Part000 no_faults
          (run hexObjectId crowded_world [(Part000, no_faults, GetAll)]) GetAll) =
     Response 200 (Movies (take 10 twelve_movies)) \<and>
   at_most_10 (Movies (take 10 twelve_movies)) \<and>
   entries (Movies (take 10 twelve_movies)) = Some 10"
proof -
  have a: "cache crowded_world ''movies'' = None"
    by (simp add: crowded_world_def)
  have b: "snd (handle hexObjectId Part000 no_faults
          (run hexObjectId crowded_world [(Part000, no_faults, GetAll)]) GetAll) =
     Response 200 (Movies (take 10 twelve_movies))"
    by (simp add: part000_get_all_def collaborator_defs no_faults_def crowded_world_def)
  note h = get_all_at_most_10 [OF a b]
  from a b h take_10_twelve_movies show ?thesis by simp
qed

end
